theory Spec2Isabelle
  imports Complex_Main "HOL-Library.Word" "HOL-Library.AList"
begin

section \<open>Strings, bytes and files\<close>

text \<open>
  A JavaScript string is a sequence of UTF-16 code units. The model uses HOL strings, a
  character standing for the code unit of the same number, so it covers the strings whose
  code units lie below 256 (ASCII and Latin-1). Every operation below is the JavaScript
  operation restricted to such strings.
\<close>

type_synonym byte = "8 word"

text \<open>
  \<open>String.prototype.toLowerCase\<close>: the letters A to Z, and the Latin-1 capitals
  (U+00C0 to U+00DE without the multiplication sign U+00D7), move up by 32; nothing else
  below 256 changes.
\<close>

definition toLowerCase_char :: "char \<Rightarrow> char" where
  "toLowerCase_char c =
     (let n = (of_char c :: nat)
      in if (65 \<le> n \<and> n \<le> 90) \<or> (192 \<le> n \<and> n \<le> 222 \<and> n \<noteq> 215)
         then char_of (n + 32) else c)"

definition toLowerCase :: "string \<Rightarrow> string" where
  "toLowerCase s = map toLowerCase_char s"

text \<open>
  \<open>s.split(".")\<close>: the pieces between the dots. The result always has at least one
  element; the empty string gives the one-element list of the empty string.
\<close>

fun split_dot :: "string \<Rightarrow> string list" where
  "split_dot [] = [[]]"
| "split_dot (c # cs) =
     (if c = CHR ''.'' then [] # split_dot cs
      else (case split_dot cs of [] \<Rightarrow> [[c]] | x # xs \<Rightarrow> (c # x) # xs))"

text \<open>\<open>Array.prototype.pop\<close>, for its value: the last element, undefined on an empty array.\<close>

definition pop :: "'a list \<Rightarrow> 'a option" where
  "pop xs = (if xs = [] then None else Some (last xs))"

text \<open>
  \<open>String.prototype.trim\<close>: white space and line terminators go from both ends. Below
  256 these are the code units 9 to 13, 32 and 160.
\<close>

definition isWhiteSpace :: "char \<Rightarrow> bool" where
  "isWhiteSpace c = (let n = (of_char c :: nat) in (9 \<le> n \<and> n \<le> 13) \<or> n = 32 \<or> n = 160)"

definition trim :: "string \<Rightarrow> string" where
  "trim s = rev (dropWhile isWhiteSpace (rev (dropWhile isWhiteSpace s)))"

text \<open>
  The decimal digits of a natural number, and \<open>Number.prototype.toString\<close> of an integer
  in radix 10 (what a template literal does to a number) and of a natural number in radix 36.
\<close>

definition digit_char :: "nat \<Rightarrow> char" where
  "digit_char d = ''0123456789abcdefghijklmnopqrstuvwxyz'' ! d"

fun digits :: "nat \<Rightarrow> nat \<Rightarrow> string" where
  "digits radix n =
     (if radix < 2 \<or> n < radix then [digit_char n]
      else digits radix (n div radix) @ [digit_char (n mod radix)])"

declare digits.simps [simp del]

definition toString :: "int \<Rightarrow> string" where
  "toString i = (if i < 0 then CHR ''-'' # digits 10 (nat (- i)) else digits 10 (nat i))"

definition toString36 :: "nat \<Rightarrow> string" where
  "toString36 n = digits 36 n"

text \<open>
  A \<open>File\<close> of the drop or paste event: its name, its media type (the empty string when
  the browser knows none) and what \<open>arrayBuffer()\<close> settles to, the bytes or a rejection
  (of the host, given by its message).
\<close>

datatype error = Error string | HostError string

text \<open>
  \<open>Error msg\<close> is an \<open>Error\<close> object the plugin throws itself with \<open>new Error(msg)\<close>;
  \<open>HostError msg\<close> is a rejection or an exception of the host (the file, the network
  primitive, the JSON getter, the vault). Both carry a message.
\<close>

fun message :: "error \<Rightarrow> string" where
  "message (Error m) = m"
| "message (HostError m) = m"

record File =
  name :: string
  type :: string
  arrayBuffer :: "string + byte list"

section \<open>Classification of files\<close>

definition IMAGE_EXTENSIONS :: "string list" where
  "IMAGE_EXTENSIONS = [''jpg'', ''jpeg'', ''png'', ''gif'', ''webp'', ''svg'', ''avif'', ''ico'']"

text \<open>The expression \<open>file.name.split(".").pop()?.toLowerCase() ?? ""\<close> of both predicates.\<close>

definition ext_of :: "File \<Rightarrow> string" where
  "ext_of file = (case pop (split_dot (name file)) of None \<Rightarrow> [] | Some e \<Rightarrow> toLowerCase e)"

definition isPdfFile :: "File \<Rightarrow> bool" where
  "isPdfFile file = (ext_of file = ''pdf'')"

definition isImageFile :: "File \<Rightarrow> bool" where
  "isImageFile file = List.member IMAGE_EXTENSIONS (ext_of file)"

section \<open>JavaScript values and the response extractor\<close>

text \<open>
  The values \<open>getByPath\<close> can meet: what \<open>JSON.parse\<close> produces (null, booleans, numbers,
  strings, arrays, objects with their own properties in order), \<open>undefined\<close>, and what the
  prototype chain of a decoded array or object holds (the two prototype objects and the
  built-in functions, named by their property key).
\<close>

datatype jsvalue =
    Undefined
  | Null
  | Boolean bool
  | Number rat
  | String string
  | Array "jsvalue list"
  | Object "(string \<times> jsvalue) list"
  | Function string
  | ObjectPrototype
  | ArrayPrototype

fun typeof :: "jsvalue \<Rightarrow> string" where
  "typeof Undefined = ''undefined''"
| "typeof Null = ''object''"
| "typeof (Boolean b) = ''boolean''"
| "typeof (Number n) = ''number''"
| "typeof (String s) = ''string''"
| "typeof (Array xs) = ''object''"
| "typeof (Object kvs) = ''object''"
| "typeof (Function f) = ''function''"
| "typeof ObjectPrototype = ''object''"
| "typeof ArrayPrototype = ''object''"

text \<open>\<open>ToBoolean\<close>, the truth value of a value under \<open>!\<close> and \<open>||\<close>.\<close>

fun toBoolean :: "jsvalue \<Rightarrow> bool" where
  "toBoolean Undefined = False"
| "toBoolean Null = False"
| "toBoolean (Boolean b) = b"
| "toBoolean (Number n) = (n \<noteq> 0)"
| "toBoolean (String s) = (s \<noteq> [])"
| "toBoolean (Array xs) = True"
| "toBoolean (Object kvs) = True"
| "toBoolean (Function f) = True"
| "toBoolean ObjectPrototype = True"
| "toBoolean ArrayPrototype = True"

text \<open>\<open>v == null\<close>: true of null and of undefined only.\<close>

fun eq_null :: "jsvalue \<Rightarrow> bool" where
  "eq_null Undefined = True"
| "eq_null Null = True"
| "eq_null v = False"

text \<open>
  The function-valued properties of \<open>Object.prototype\<close> and of \<open>Array.prototype\<close>
  (ECMAScript 2023). A function is no object for \<open>typeof\<close>, so a path never walks
  into one.
\<close>

definition objectPrototypeMembers :: "string list" where
  "objectPrototypeMembers =
     [''constructor'', ''hasOwnProperty'', ''isPrototypeOf'', ''propertyIsEnumerable'',
      ''toLocaleString'', ''toString'', ''valueOf'', ''__defineGetter__'',
      ''__defineSetter__'', ''__lookupGetter__'', ''__lookupSetter__'']"

definition arrayPrototypeMembers :: "string list" where
  "arrayPrototypeMembers =
     [''at'', ''concat'', ''constructor'', ''copyWithin'', ''entries'', ''every'', ''fill'',
      ''filter'', ''find'', ''findIndex'', ''findLast'', ''findLastIndex'', ''flat'',
      ''flatMap'', ''forEach'', ''includes'', ''indexOf'', ''join'', ''keys'',
      ''lastIndexOf'', ''map'', ''pop'', ''push'', ''reduce'', ''reduceRight'', ''reverse'',
      ''shift'', ''slice'', ''some'', ''sort'', ''splice'', ''toLocaleString'',
      ''toReversed'', ''toSorted'', ''toSpliced'', ''toString'', ''unshift'', ''values'',
      ''with'']"

definition objectPrototype_get :: "string \<Rightarrow> jsvalue" where
  "objectPrototype_get key =
     (if key = ''__proto__'' then Null
      else if key \<in> set objectPrototypeMembers then Function key
      else Undefined)"

definition arrayPrototype_get :: "string \<Rightarrow> jsvalue" where
  "arrayPrototype_get key =
     (if key = ''__proto__'' then ObjectPrototype
      else if key = ''length'' then Number 0
      else if key \<in> set arrayPrototypeMembers then Function key
      else objectPrototype_get key)"

text \<open>
  \<open>current[key]\<close> on a value that passed the guard of \<open>getByPath\<close>: an own property
  first (for an array its elements under their canonical decimal index, and
  \<open>length\<close>), then the prototype chain.
\<close>

fun getProperty :: "jsvalue \<Rightarrow> string \<Rightarrow> jsvalue" where
  "getProperty (Object kvs) key =
     (case map_of kvs key of
        Some v \<Rightarrow> v
      | None \<Rightarrow> if key = ''__proto__'' then ObjectPrototype else objectPrototype_get key)"
| "getProperty (Array xs) key =
     (case find (\<lambda>i. digits 10 i = key) [0..<length xs] of
        Some i \<Rightarrow> xs ! i
      | None \<Rightarrow>
          if key = ''length'' then Number (of_nat (length xs))
          else if key = ''__proto__'' then ArrayPrototype
          else arrayPrototype_get key)"
| "getProperty ObjectPrototype key = objectPrototype_get key"
| "getProperty ArrayPrototype key = arrayPrototype_get key"
| "getProperty v key = Undefined"

text \<open>The loop of \<open>getByPath\<close> over the keys, and \<open>getByPath\<close> itself.\<close>

fun walk :: "jsvalue \<Rightarrow> string list \<Rightarrow> jsvalue" where
  "walk current [] = current"
| "walk current (key # keys) =
     (if eq_null current \<or> typeof current \<noteq> ''object'' then Undefined
      else walk (getProperty current key) keys)"

definition getByPath :: "jsvalue \<Rightarrow> string \<Rightarrow> jsvalue" where
  "getByPath obj path = walk obj (split_dot path)"

text \<open>The values \<open>JSON.parse\<close> produces.\<close>

fun isJson :: "jsvalue \<Rightarrow> bool" where
  "isJson Null = True"
| "isJson (Boolean b) = True"
| "isJson (Number n) = True"
| "isJson (String s) = True"
| "isJson (Array xs) = list_all isJson xs"
| "isJson (Object kvs) = list_all (\<lambda>kv. isJson (snd kv)) kvs"
| "isJson v = False"

section \<open>Settings\<close>

record HeaderEntry =
  key :: string
  val :: string

text \<open>The type \<open>PdfHandling\<close>: the strings \<open>"default"\<close>, \<open>"upload"\<close> and \<open>"ask"\<close>.\<close>

datatype PdfHandling = Default | Upload | Ask

record ImageUploaderSettings =
  apiEndpoint :: string
  headers :: "HeaderEntry list"
  fileFieldName :: string
  imageUrlPath :: string
  pdfHandling :: PdfHandling

definition DEFAULT_SETTINGS :: ImageUploaderSettings where
  "DEFAULT_SETTINGS =
     \<lparr>apiEndpoint = [], headers = [], fileFieldName = ''file'', imageUrlPath = [],
      pdfHandling = Default\<rparr>"

section \<open>The multipart body and the upload\<close>

text \<open>
  \<open>TextEncoder.encode\<close>: UTF-8. A code unit below 128 is one byte, one from 128 to 255
  is two.
\<close>

definition utf8_char :: "char \<Rightarrow> byte list" where
  "utf8_char c =
     (let n = (of_char c :: nat)
      in if n < 128 then [of_nat n] else [of_nat (192 + n div 64), of_nat (128 + n mod 64)])"

definition encode :: "string \<Rightarrow> byte list" where
  "encode s = concat (map utf8_char s)"

definition CRLF :: string where
  "CRLF = [CHR 0x0D, CHR 0x0A]"

definition dquote :: string where
  "dquote = [CHR 0x22]"

text \<open>The boundary, from \<open>Date.now()\<close> in milliseconds.\<close>

definition boundary_of :: "nat \<Rightarrow> string" where
  "boundary_of now = ''----ObsidianUploader'' @ toString36 now"

definition partHeader :: "string \<Rightarrow> string \<Rightarrow> File \<Rightarrow> string" where
  "partHeader boundary fieldName file =
     ''--'' @ boundary @ CRLF @
     ''Content-Disposition: form-data; name='' @ dquote @ fieldName @ dquote @
       ''; filename='' @ dquote @ name file @ dquote @ CRLF @
     ''Content-Type: '' @ (if type file \<noteq> [] then type file else ''application/octet-stream'') @
     CRLF @ CRLF"

definition partFooter :: "string \<Rightarrow> string" where
  "partFooter boundary = CRLF @ ''--'' @ boundary @ ''--'' @ CRLF"

text \<open>The three \<open>body.set\<close> calls: header bytes, file bytes, footer bytes, in this order.\<close>

definition multipart_body :: "string \<Rightarrow> string \<Rightarrow> File \<Rightarrow> byte list \<Rightarrow> byte list" where
  "multipart_body boundary fieldName file fileBytes =
     encode (partHeader boundary fieldName file) @ fileBytes @ encode (partFooter boundary)"

text \<open>
  \<open>obj[k] = v\<close> on a plain object: a new key goes to the end, a key already there
  keeps its place and takes the new value. An assignment to \<open>__proto__\<close> goes to the
  prototype setter and makes no property.
\<close>

definition set_property :: "string \<Rightarrow> 'v \<Rightarrow> (string \<times> 'v) list \<Rightarrow> (string \<times> 'v) list" where
  "set_property k v obj = (if k = ''__proto__'' then obj else AList.update k v obj)"

fun add_headers :: "HeaderEntry list \<Rightarrow> (string \<times> string) list \<Rightarrow> (string \<times> string) list" where
  "add_headers [] hs = hs"
| "add_headers (entry # entries) hs =
     add_headers entries
       (if trim (key entry) \<noteq> [] then set_property (trim (key entry)) (val entry) hs else hs)"

definition fieldName_of :: "ImageUploaderSettings \<Rightarrow> string" where
  "fieldName_of settings =
     (if trim (fileFieldName settings) \<noteq> [] then trim (fileFieldName settings) else ''file'')"

record RequestUrlParam =
  req_url :: string
  req_method :: string
  req_headers :: "(string \<times> string) list"
  req_body :: "byte list"

text \<open>
  The response of the host's \<open>requestUrl\<close>: the status, and what the \<open>json\<close> getter
  gives, the decoded body or the exception (its message) of a body that is no JSON.
\<close>

record RequestUrlResponse =
  status :: int
  json :: "string + jsvalue"

definition request_of :: "ImageUploaderSettings \<Rightarrow> nat \<Rightarrow> File \<Rightarrow> byte list \<Rightarrow> RequestUrlParam" where
  "request_of settings now file fileBytes =
     (let hs = add_headers (headers settings) [];
          fieldName = fieldName_of settings;
          boundary = boundary_of now;
          body = multipart_body boundary fieldName file fileBytes;
          hs' = set_property ''Content-Type'' (''multipart/form-data; boundary='' @ boundary) hs
      in \<lparr>req_url = apiEndpoint settings, req_method = ''POST'', req_headers = hs',
          req_body = body\<rparr>)"

text \<open>The value returned at the end of \<open>upload\<close>, behind the guard that it is a string.\<close>

fun string_of :: "jsvalue \<Rightarrow> string" where
  "string_of (String s) = s"
| "string_of v = []"

text \<open>
  What \<open>upload\<close> does with a response: the status check, and behind it the extraction
  of the URL from the decoded body.
\<close>

definition extract_url :: "ImageUploaderSettings \<Rightarrow> RequestUrlResponse \<Rightarrow> error + string" where
  "extract_url settings response =
     (case json response of
        Inl m \<Rightarrow> Inl (HostError m)
      | Inr data \<Rightarrow>
          let url = getByPath data (imageUrlPath settings)
          in if \<not> toBoolean url \<or> typeof url \<noteq> ''string''
             then Inl (Error (''Could not extract URL from response using path '' @ dquote @
                              imageUrlPath settings @ dquote))
             else Inr (string_of url))"

definition upload_response :: "ImageUploaderSettings \<Rightarrow> RequestUrlResponse \<Rightarrow> error + string" where
  "upload_response settings response =
     (if status response < 200 \<or> status response \<ge> 300
      then Inl (Error (''Server responded with status '' @ toString (status response)))
      else extract_url settings response)"

text \<open>
  \<open>upload\<close>: the time \<open>now\<close> and the network primitive \<open>requestUrl\<close> are the host's
  (\<open>requestUrl\<close> gives a response, or rejects with a message). A rejection of
  \<open>arrayBuffer()\<close> or of \<open>requestUrl\<close> leaves the function as it came.
\<close>

definition upload ::
  "ImageUploaderSettings \<Rightarrow> nat \<Rightarrow> (RequestUrlParam \<Rightarrow> string + RequestUrlResponse) \<Rightarrow> File
     \<Rightarrow> error + string" where
  "upload settings now requestUrl file =
     (case arrayBuffer file of
        Inl m \<Rightarrow> Inl (HostError m)
      | Inr fileBytes \<Rightarrow>
          (case requestUrl (request_of settings now file fileBytes) of
             Inl m \<Rightarrow> Inl (HostError m)
           | Inr response \<Rightarrow> upload_response settings response))"

section \<open>The placeholder and its replacement\<close>

text \<open>
  \<open>String.prototype.indexOf\<close> as \<open>replace\<close> uses it: the first position at which the
  pattern stands, if any.
\<close>

fun indexOf :: "'a list \<Rightarrow> 'a list \<Rightarrow> nat option" where
  "indexOf [] pat = (if pat = [] then Some 0 else None)"
| "indexOf (c # cs) pat =
     (if take (length pat) (c # cs) = pat then Some 0 else map_option Suc (indexOf cs pat))"

text \<open>
  \<open>GetSubstitution\<close> of ECMAScript for a string pattern (no captures): in the replacement
  text \<open>$$\<close> stands for a dollar sign, \<open>$&\<close> for the matched text, \<open>$`\<close> for the text
  before the match and \<open>$'\<close> for the text after it; any other dollar sign stands for itself.
\<close>

fun getSubstitution :: "string \<Rightarrow> string \<Rightarrow> nat \<Rightarrow> string \<Rightarrow> string" where
  "getSubstitution matched str position [] = []"
| "getSubstitution matched str position [c] = [c]"
| "getSubstitution matched str position (c # d # rest) =
     (if c = CHR ''$'' \<and> d = CHR ''$'' then CHR ''$'' # getSubstitution matched str position rest
      else if c = CHR ''$'' \<and> d = CHR ''&'' then matched @ getSubstitution matched str position rest
      else if c = CHR ''$'' \<and> d = CHR 0x60
        then take position str @ getSubstitution matched str position rest
      else if c = CHR ''$'' \<and> d = CHR 0x27
        then drop (position + length matched) str @ getSubstitution matched str position rest
      else c # getSubstitution matched str position (d # rest))"

text \<open>\<open>content.replace(pattern, replacement)\<close> with two strings: the first match only.\<close>

definition replace :: "string \<Rightarrow> string \<Rightarrow> string \<Rightarrow> string" where
  "replace content pattern replacement =
     (case indexOf content pattern of
        None \<Rightarrow> content
      | Some position \<Rightarrow>
          take position content @ getSubstitution pattern content position replacement @
          drop (position + length pattern) content)"

text \<open>
  The editor: the text of the document and the selection, as two offsets into the text.
  \<open>replaceSelection\<close> puts the text in place of the selection and leaves the cursor
  behind it. \<open>setValue\<close> replaces the whole text; where the selection is then is the
  host's affair, so the model takes it as an argument.
\<close>

record Editor =
  content :: string
  selection :: "nat \<times> nat"

definition replaceSelection :: "string \<Rightarrow> Editor \<Rightarrow> Editor" where
  "replaceSelection text editor =
     (let from = min (fst (selection editor)) (snd (selection editor));
          to = max (fst (selection editor)) (snd (selection editor))
      in \<lparr>content = take from (content editor) @ text @ drop to (content editor),
          selection = (min from (length (content editor)) + length text,
                       min from (length (content editor)) + length text)\<rparr>)"

definition getValue :: "Editor \<Rightarrow> string" where
  "getValue editor = content editor"

definition setValue :: "string \<Rightarrow> nat \<times> nat \<Rightarrow> Editor \<Rightarrow> Editor" where
  "setValue v sel editor = \<lparr>content = v, selection = sel\<rparr>"

definition placeholder :: "File \<Rightarrow> string" where
  "placeholder file = ''![Uploading '' @ name file @ ''...]()''"

definition markdown :: "File \<Rightarrow> string \<Rightarrow> string" where
  "markdown file url =
     (if isImageFile file then ''![]('' @ url @ '')''
      else ''['' @ name file @ '']('' @ url @ '')'')"

text \<open>
  \<open>uploadFile\<close> in its two halves: up to the \<open>await\<close> (the placeholder goes into the
  document), and from the moment the upload has settled (the replacement, and on failure
  the notice). The second half returns the editor and the notices shown.
\<close>

definition uploadFile_start :: "File \<Rightarrow> Editor \<Rightarrow> Editor" where
  "uploadFile_start file editor = replaceSelection (placeholder file) editor"

definition uploadFile_settle ::
  "File \<Rightarrow> error + string \<Rightarrow> nat \<times> nat \<Rightarrow> Editor \<Rightarrow> Editor \<times> string list" where
  "uploadFile_settle file outcome sel editor =
     (case outcome of
        Inr url \<Rightarrow>
          (setValue (replace (getValue editor) (placeholder file) (markdown file url)) sel editor,
           [])
      | Inl err \<Rightarrow>
          (setValue (replace (getValue editor) (placeholder file) []) sel editor,
           [''Image upload failed: '' @ message err]))"

section \<open>The PDF dialog\<close>

text \<open>
  \<open>askPdfUpload\<close> makes a promise and opens a \<open>PdfUploadModal\<close> on its \<open>resolve\<close>
  function. The model keeps, with the dialog, what the promise has settled to. A promise
  settles once: \<open>resolve\<close> on a settled promise changes nothing.
\<close>

record PdfUploadModal =
  isOpen :: bool
  settled :: "bool option"

definition resolve :: "bool \<Rightarrow> PdfUploadModal \<Rightarrow> PdfUploadModal" where
  "resolve v modal = (case settled modal of None \<Rightarrow> modal\<lparr>settled := Some v\<rparr> | Some w \<Rightarrow> modal)"

definition askPdfUpload :: PdfUploadModal where
  "askPdfUpload = \<lparr>isOpen = True, settled = None\<rparr>"

definition onClose :: "PdfUploadModal \<Rightarrow> PdfUploadModal" where
  "onClose modal = resolve False modal"

text \<open>The host's \<open>close()\<close> takes the dialog away and calls \<open>onClose\<close>.\<close>

definition close :: "PdfUploadModal \<Rightarrow> PdfUploadModal" where
  "close modal = onClose (modal\<lparr>isOpen := False\<rparr>)"

text \<open>
  The two click listeners of \<open>onOpen\<close>, and the user leaving the dialog without a
  click (Escape, a click outside, the close button), which is the host calling \<open>close()\<close>.
\<close>

definition clickUpload :: "PdfUploadModal \<Rightarrow> PdfUploadModal" where
  "clickUpload modal = close (resolve True modal)"

definition clickSave :: "PdfUploadModal \<Rightarrow> PdfUploadModal" where
  "clickSave modal = close (resolve False modal)"

definition dismiss :: "PdfUploadModal \<Rightarrow> PdfUploadModal" where
  "dismiss modal = close modal"

section \<open>The orchestration of a batch\<close>

text \<open>
  JavaScript runs one task at a time and an \<open>async\<close> function gives way only at an
  \<open>await\<close>. So the asynchronous body of \<open>handleFiles\<close> is a task that sits at one of
  its awaits: the upload of a file, the answer of the dialog for a PDF, or the local save of
  a PDF. \<open>images\<close> and \<open>pdfs\<close> are the files its two loops have not reached yet.
  \<open>Rejected\<close> is the body left by an exception that nothing catches.
\<close>

datatype phase =
    Uploading File
  | Asking File PdfUploadModal
  | Saving File
  | Finished
  | Rejected error

record task =
  images :: "File list"
  pdfs :: "File list"
  phase :: phase

record plugin =
  settings :: ImageUploaderSettings
  editor :: Editor
  tasks :: "task list"
  notices :: "string list"

definition shouldIntercept :: "ImageUploaderSettings \<Rightarrow> File \<Rightarrow> bool" where
  "shouldIntercept st file =
     (if isImageFile file then True
      else if isPdfFile file \<and> pdfHandling st \<noteq> Default then True
      else False)"

text \<open>
  From the answer of the dialog on: \<open>shouldUpload\<close> is the value of the promise, and
  the PDF is uploaded or saved.
\<close>

definition after_ask :: "File \<Rightarrow> PdfUploadModal \<Rightarrow> task \<Rightarrow> Editor \<Rightarrow> task \<times> Editor" where
  "after_ask pdf modal t ed =
     (case settled modal of
        None \<Rightarrow> (t\<lparr>phase := Asking pdf modal\<rparr>, ed)
      | Some shouldUpload \<Rightarrow>
          if shouldUpload then (t\<lparr>phase := Uploading pdf\<rparr>, uploadFile_start pdf ed)
          else (t\<lparr>phase := Saving pdf\<rparr>, ed))"

text \<open>
  The body of the task from a point between two files up to its next \<open>await\<close>: the next
  image of \<open>uploadFiles\<close> if one is left, else the next PDF, else the end.
\<close>

definition continue_task :: "ImageUploaderSettings \<Rightarrow> task \<Rightarrow> Editor \<Rightarrow> task \<times> Editor" where
  "continue_task st t ed =
     (case images t of
        file # files \<Rightarrow> (t\<lparr>images := files, phase := Uploading file\<rparr>, uploadFile_start file ed)
      | [] \<Rightarrow>
          (case pdfs t of
             [] \<Rightarrow> (t\<lparr>phase := Finished\<rparr>, ed)
           | pdf # rest \<Rightarrow>
               (case pdfHandling st of
                  Ask \<Rightarrow> (t\<lparr>pdfs := rest, phase := Asking pdf askPdfUpload\<rparr>, ed)
                | Upload \<Rightarrow> (t\<lparr>pdfs := rest, phase := Uploading pdf\<rparr>, uploadFile_start pdf ed)
                | Default \<Rightarrow> (t\<lparr>pdfs := rest, phase := Saving pdf\<rparr>, ed))))"

text \<open>
  \<open>handleFiles\<close>: the file list of the event (none when the event carries no
  \<open>files\<close>), and whether a Markdown view is active. The result says whether the event
  was suppressed (\<open>preventDefault\<close> and \<open>stopPropagation\<close>), and gives the plugin with
  the new task at its first await.
\<close>

definition handleFiles :: "bool \<Rightarrow> File list option \<Rightarrow> plugin \<Rightarrow> bool \<times> plugin" where
  "handleFiles hasView fileList s =
     (case fileList of
        None \<Rightarrow> (False, s)
      | Some allFiles \<Rightarrow>
          if allFiles = [] then (False, s)
          else let intercepted = filter (shouldIntercept (settings s)) allFiles
               in if intercepted = [] then (False, s)
                  else if \<not> hasView then (False, s)
                  else let (t, ed) =
                             continue_task (settings s)
                               \<lparr>images = filter isImageFile intercepted,
                                pdfs = filter isPdfFile intercepted, phase = Finished\<rparr>
                               (editor s)
                       in (True, s\<lparr>editor := ed, tasks := tasks s @ [t]\<rparr>))"

text \<open>
  What the host can do to the plugin: deliver a drop or paste, settle the upload a task
  waits for (with the time and the network's behaviour, and the selection it leaves after
  \<open>setValue\<close>), answer or close the dialog a task waits for, settle the local save a task
  waits for (with the name of the created file, or a rejection), and let the user edit the
  text and move the selection.
\<close>

datatype event =
    FilesArrived bool "File list option"
  | UploadSettled nat nat "RequestUrlParam \<Rightarrow> string + RequestUrlResponse" "nat \<times> nat"
  | ClickUpload nat
  | ClickSave nat
  | Dismiss nat
  | SaveSettled nat "string + string"
  | UserEdit string "nat \<times> nat"

definition put_task :: "nat \<Rightarrow> task \<times> Editor \<Rightarrow> plugin \<Rightarrow> plugin" where
  "put_task i te s = s\<lparr>editor := snd te, tasks := (tasks s)[i := fst te]\<rparr>"

text \<open>
  \<open>savePdfLocally\<close> from the moment its awaits have settled: the embed of the created
  file goes in place of the selection, or the rejection leaves the task.
\<close>

definition savePdfLocally_settle :: "File \<Rightarrow> string + string \<Rightarrow> Editor \<Rightarrow> error + Editor" where
  "savePdfLocally_settle file created ed =
     (case arrayBuffer file of
        Inl m \<Rightarrow> Inl (HostError m)
      | Inr fileBytes \<Rightarrow>
          (case created of
             Inl m \<Rightarrow> Inl (HostError m)
           | Inr createdName \<Rightarrow> Inr (replaceSelection (''![['' @ createdName @ '']]'') ed)))"

fun step :: "plugin \<Rightarrow> event \<Rightarrow> plugin" where
  "step s (FilesArrived hasView fileList) = snd (handleFiles hasView fileList s)"
| "step s (UploadSettled i now requestUrl sel) =
     (if i < length (tasks s) then
        (case phase (tasks s ! i) of
           Uploading file \<Rightarrow>
             (let (ed, shown) =
                    uploadFile_settle file (upload (settings s) now requestUrl file) sel (editor s)
              in put_task i (continue_task (settings s) (tasks s ! i) ed)
                   (s\<lparr>notices := notices s @ shown\<rparr>))
         | _ \<Rightarrow> s)
      else s)"
| "step s (ClickUpload i) =
     (if i < length (tasks s) then
        (case phase (tasks s ! i) of
           Asking pdf modal \<Rightarrow> put_task i (after_ask pdf (clickUpload modal) (tasks s ! i) (editor s)) s
         | _ \<Rightarrow> s)
      else s)"
| "step s (ClickSave i) =
     (if i < length (tasks s) then
        (case phase (tasks s ! i) of
           Asking pdf modal \<Rightarrow> put_task i (after_ask pdf (clickSave modal) (tasks s ! i) (editor s)) s
         | _ \<Rightarrow> s)
      else s)"
| "step s (Dismiss i) =
     (if i < length (tasks s) then
        (case phase (tasks s ! i) of
           Asking pdf modal \<Rightarrow> put_task i (after_ask pdf (dismiss modal) (tasks s ! i) (editor s)) s
         | _ \<Rightarrow> s)
      else s)"
| "step s (SaveSettled i created) =
     (if i < length (tasks s) then
        (case phase (tasks s ! i) of
           Saving pdf \<Rightarrow>
             (case savePdfLocally_settle pdf created (editor s) of
                Inl e \<Rightarrow> put_task i ((tasks s ! i)\<lparr>phase := Rejected e\<rparr>, editor s) s
              | Inr ed \<Rightarrow> put_task i (continue_task (settings s) (tasks s ! i) ed) s)
         | _ \<Rightarrow> s)
      else s)"
| "step s (UserEdit v sel) = s\<lparr>editor := \<lparr>content = v, selection = sel\<rparr>\<rparr>"

definition run :: "plugin \<Rightarrow> event list \<Rightarrow> plugin" where
  "run s events = foldl step s events"

definition init :: "ImageUploaderSettings \<Rightarrow> string \<Rightarrow> plugin" where
  "init st doc =
     \<lparr>settings = st, editor = \<lparr>content = doc, selection = (length doc, length doc)\<rparr>,
      tasks = [], notices = []\<rparr>"

text \<open>The uploads in flight: of one task, and of the plugin (the tasks in order).\<close>

definition inflight_of :: "task \<Rightarrow> File list" where
  "inflight_of t = (case phase t of Uploading file \<Rightarrow> [file] | _ \<Rightarrow> [])"

definition inflight :: "plugin \<Rightarrow> File list" where
  "inflight s = concat (map inflight_of (tasks s))"

section \<open>Loading the settings\<close>

text \<open>
  \<open>loadSettings\<close> works on plain objects, whatever their types say. An object is the
  list of its own properties; \<open>loadData()\<close> gives what the host decoded from the saved
  file, or null when there is none.
\<close>

definition DEFAULT_SETTINGS_object :: "(string \<times> jsvalue) list" where
  "DEFAULT_SETTINGS_object =
     [(''apiEndpoint'', String []), (''headers'', Array []), (''fileFieldName'', String ''file''),
      (''imageUrlPath'', String []), (''pdfHandling'', String ''default'')]"

text \<open>
  The own enumerable string-keyed properties \<open>Object.assign\<close> copies from a source: those
  of an object, the elements of an array and the characters of a string under their
  indices, and nothing of null, undefined, a boolean or a number.
\<close>

fun ownProperties :: "jsvalue \<Rightarrow> (string \<times> jsvalue) list" where
  "ownProperties (Object kvs) = AList.clearjunk kvs"
| "ownProperties (Array xs) = zip (map (digits 10) [0..<length xs]) xs"
| "ownProperties (String s) = zip (map (digits 10) [0..<length s]) (map (\<lambda>c. String [c]) s)"
| "ownProperties v = []"

definition assign :: "(string \<times> jsvalue) list \<Rightarrow> jsvalue \<Rightarrow> (string \<times> jsvalue) list" where
  "assign target source =
     fold (\<lambda>kv obj. set_property (fst kv) (snd kv) obj) (ownProperties source) target"

definition loadSettings :: "jsvalue \<Rightarrow> (string \<times> jsvalue) list" where
  "loadSettings loadData = assign (assign [] (Object DEFAULT_SETTINGS_object)) loadData"

definition settings_fields :: "string list" where
  "settings_fields = [''apiEndpoint'', ''headers'', ''fileFieldName'', ''imageUrlPath'', ''pdfHandling'']"

section \<open>A reference decoder for the multipart body\<close>

text \<open>
  This section is not code of the plugin. It is the reading of a \<open>multipart/form-data\<close>
  body with one part that the body built by \<open>upload\<close> is compared with. It follows the
  grammar of RFC 2046 (section 5.1.1) and RFC 7578 (section 4.2) and keeps to the ground on
  which parsers agree; what they read differently it refuses:
  \<^item> the body begins with two dashes, the boundary and CRLF;
  \<^item> header lines end at CRLF and run up to the empty line; a header line holds printable
    ASCII only (so no bare CR or LF, no control character, no byte above 126);
  \<^item> a header is a name (compared without case), a colon and a value with the spaces at
    its ends removed;
  \<^item> the value of \<open>Content-Disposition\<close> is \<open>form-data\<close> and parameters, each a
    semicolon, a key, \<open>=\<close> and a quoted string; a quoted string ends at the next double
    quote and must be followed by a semicolon or the end; a backslash or a percent sign in it
    (read as an escape by some parsers and not by others), an empty one, and a value without
    quotes are refused;
  \<^item> the content is what stands before the first delimiter (CRLF, two dashes, the
    boundary), which must be the closing one (two more dashes); what follows is ignored.
\<close>















section \<open>Properties: digits\<close>

lemma digits_not_Nil: "digits r n \<noteq> []"
  by (induction r n rule: digits.induct) (subst digits.simps, simp)


lemma digit_char_10: "d < 10 \<Longrightarrow> digit_char d \<in> set ''0123456789''"
proof -
  assume "d < 10"
  then have "d \<in> {0,1,2,3,4,5,6,7,8,9}" by auto
  then show ?thesis by (auto simp: digit_char_def)
qed

lemma hd_digits_10: "hd (digits 10 n) \<in> set ''0123456789''"
proof (induction "10::nat" n rule: digits.induct)
  case (1 n)
  show ?case
  proof (cases "n < 10")
    case True
    then show ?thesis using digit_char_10 [OF True] by (subst digits.simps) simp
  next
    case False
    have ne: "digits 10 (n div 10) \<noteq> []"
      by (subst digits.simps) simp
    from False have "hd (digits 10 n) = hd (digits 10 (n div 10))"
      by (subst digits.simps) (simp add: ne)
    with 1 False show ?thesis by simp
  qed
qed

section \<open>Properties: classification\<close>

lemma split_dot_not_Nil: "split_dot s \<noteq> []"
  by (induction s) (auto split: list.splits)

lemma split_dot_no_dot: "CHR ''.'' \<notin> set s \<Longrightarrow> split_dot s = [s]"
  by (induction s) auto

lemma ext_of_no_dot: "CHR ''.'' \<notin> set (name file) \<Longrightarrow> ext_of file = toLowerCase (name file)"
  by (simp add: ext_of_def pop_def split_dot_no_dot)

text \<open>
  C5 (classification by the extension behind the last dot; a name without an extension is
  \<open>Other\<close>). The code takes the last piece of \<open>split(".")\<close>, which for a name without
  a dot is the whole name (\<open>ext_of_no_dot\<close>), never the empty string: the file named
  \<open>png\<close> counts as an image and the file named \<open>PDF\<close> as a PDF.
\<close>

theorem dotless_name_classified_by_whole_name:
  "isImageFile \<lparr>name = ''png'', type = [], arrayBuffer = Inr []\<rparr> \<and>
   isPdfFile \<lparr>name = ''PDF'', type = [], arrayBuffer = Inr []\<rparr>"
  by code_simp

section \<open>Properties: the response extractor\<close>

lemma size_map_of: "map_of kvs k = Some v \<Longrightarrow> size v < size (Object kvs)"
  by (induction kvs) (auto split: if_splits)

lemma getProperty_empty_key:
  "getProperty v [] = (case v of Object kvs \<Rightarrow> (case map_of kvs [] of Some x \<Rightarrow> x | None \<Rightarrow> Undefined) | _ \<Rightarrow> Undefined)"
  by (cases v) (auto simp: objectPrototype_get_def arrayPrototype_get_def objectPrototypeMembers_def
      arrayPrototypeMembers_def find_None_iff find_Some_iff digits_not_Nil split: option.splits)

lemma getByPath_empty_path_eq:
  "getByPath v [] = (if eq_null v \<or> typeof v \<noteq> ''object'' then Undefined else getProperty v [])"
  by (simp add: getByPath_def)

lemma getByPath_empty_path_root: "(getByPath v [] = v) = (v = Undefined)"
proof (cases v)
  case (Object kvs)
  show ?thesis
  proof (cases "map_of kvs []")
    case None
    with Object show ?thesis by (simp add: getByPath_def getProperty_empty_key)
  next
    case (Some x)
    then have "size x < size v" using Object size_map_of by blast
    moreover have "getByPath v [] = x" using Object Some by (simp add: getByPath_def)
    ultimately show ?thesis using Object by auto
  qed
qed (simp_all add: getByPath_def getProperty_empty_key)

text \<open>
  C6, as the code has it: the empty path is the one key \<open>""\<close>, not the empty list of
  keys. For a decoded JSON value \<open>v\<close>, \<open>getByPath v ""\<close> is the property of \<open>v\<close> named
  \<open>""\<close> when \<open>v\<close> is an object that has one, and undefined otherwise; it is never
  \<open>v\<close> itself.
\<close>

theorem getByPath_empty_path:
  assumes "isJson v"
  shows "getByPath v [] =
           (case v of Object kvs \<Rightarrow> (case map_of kvs [] of Some x \<Rightarrow> x | None \<Rightarrow> Undefined)
            | _ \<Rightarrow> Undefined)
       \<and> getByPath v [] \<noteq> v"
proof -
  have "getByPath v [] =
           (case v of Object kvs \<Rightarrow> (case map_of kvs [] of Some x \<Rightarrow> x | None \<Rightarrow> Undefined)
            | _ \<Rightarrow> Undefined)"
    by (cases v) (simp_all add: getByPath_empty_path_eq getProperty_empty_key)
  moreover from assms have "v \<noteq> Undefined" by auto
  then have "getByPath v [] \<noteq> v" by (simp add: getByPath_empty_path_root)
  ultimately show ?thesis by blast
qed

theorem getByPath_empty_path_witness:
  "isJson (Object [([], String ''u'')]) \<and>
   getByPath (Object [([], String ''u'')]) [] = String ''u'' \<and>
   getByPath (Object [([], String ''u'')]) [] \<noteq> Object [([], String ''u'')]"
  using getByPath_empty_path [of "Object [([], String ''u'')]"] by simp

text \<open>
  C6 as stated (the empty path gives the value itself) fails on the object
  \<open>{"url": "z"}\<close>: the result is undefined.
\<close>

theorem getByPath_empty_path_counterexample:
  "getByPath (Object [(''url'', String ''z'')]) [] = Undefined"
  by (simp add: getByPath_def objectPrototype_get_def objectPrototypeMembers_def)

section \<open>Properties: the upload\<close>

lemma toString_500: "toString 500 = ''500''"
  by code_simp

text \<open>
  C3: once the network primitive has given a response, \<open>upload\<close> fails with the error
  \<open>Server responded with status <code>\<close> exactly when the status is below 200 or not
  below 300, and for a status from 200 to 299 it is the extraction from the decoded body.
\<close>

theorem upload_status_failure:
  assumes "arrayBuffer file = Inr fileBytes"
    and "requestUrl (request_of cfg now file fileBytes) = Inr response"
  shows "(upload cfg now requestUrl file =
            Inl (Error (''Server responded with status '' @ toString (status response)))
          \<longleftrightarrow> (status response < 200 \<or> 300 \<le> status response))
       \<and> (200 \<le> status response \<and> status response < 300 \<longrightarrow>
            upload cfg now requestUrl file = extract_url cfg response)"
proof -
  have u: "upload cfg now requestUrl file = upload_response cfg response"
    using assms by (simp add: upload_def)
  have ne: "extract_url cfg response \<noteq>
              Inl (Error (''Server responded with status '' @ toString (status response)))"
    by (cases "json response") (auto simp: extract_url_def Let_def)
  show ?thesis using ne by (auto simp: u upload_response_def)
qed

theorem upload_status_failure_witness:
  "upload DEFAULT_SETTINGS 0 (\<lambda>request. Inr \<lparr>status = 500, json = Inr Null\<rparr>)
     \<lparr>name = ''a.png'', type = [], arrayBuffer = Inr []\<rparr>
   = Inl (Error ''Server responded with status 500'')"
  using upload_status_failure [of "\<lparr>name = ''a.png'', type = [], arrayBuffer = Inr []\<rparr>" "[]"
      "\<lambda>request. Inr \<lparr>status = 500, json = Inr Null\<rparr>" DEFAULT_SETTINGS 0
      "\<lparr>status = 500, json = Inr Null\<rparr>"]
  by (simp add: toString_500)

text \<open>
  C4, as the code has it: on a response with a status from 200 to 299 and a body that
  decodes, \<open>upload\<close> fails with \<open>Could not extract URL from response using path "<path>"\<close>
  exactly when the extractor does not give a string that is not empty, and every
  non-empty string the extractor gives is returned as it is.
\<close>

theorem upload_extraction:
  assumes "arrayBuffer file = Inr fileBytes"
    and "requestUrl (request_of cfg now file fileBytes) = Inr response"
    and "200 \<le> status response" and "status response < 300"
    and "json response = Inr data"
  shows "(upload cfg now requestUrl file =
            Inl (Error (''Could not extract URL from response using path '' @ dquote @
                        imageUrlPath cfg @ dquote))
          \<longleftrightarrow> (\<forall>s. getByPath data (imageUrlPath cfg) = String s \<longrightarrow> s = []))
       \<and> (\<forall>s. getByPath data (imageUrlPath cfg) = String s \<and> s \<noteq> [] \<longrightarrow>
            upload cfg now requestUrl file = Inr s)"
proof -
  have u: "upload cfg now requestUrl file = extract_url cfg response"
    using assms by (simp add: upload_def upload_response_def)
  show ?thesis
    by (cases "getByPath data (imageUrlPath cfg)")
       (auto simp: u extract_url_def assms(5) Let_def)
qed

theorem upload_extraction_witness:
  "upload (DEFAULT_SETTINGS\<lparr>imageUrlPath := ''url''\<rparr>) 0
     (\<lambda>request. Inr \<lparr>status = 201, json = Inr (Object [(''url'', String ''https://h/f.png'')])\<rparr>)
     \<lparr>name = ''a.png'', type = [], arrayBuffer = Inr []\<rparr>
   = Inr ''https://h/f.png''"
  using upload_extraction [of "\<lparr>name = ''a.png'', type = [], arrayBuffer = Inr []\<rparr>" "[]"
      "\<lambda>request. Inr \<lparr>status = 201, json = Inr (Object [(''url'', String ''https://h/f.png'')])\<rparr>"
      "DEFAULT_SETTINGS\<lparr>imageUrlPath := ''url''\<rparr>" 0
      "\<lparr>status = 201, json = Inr (Object [(''url'', String ''https://h/f.png'')])\<rparr>"
      "Object [(''url'', String ''https://h/f.png'')]"]
  by (simp add: getByPath_def DEFAULT_SETTINGS_def)

text \<open>
  C4 as stated (every string the extractor gives, the empty one too, is returned) fails
  on the body \<open>{"url": ""}\<close> with the path \<open>url\<close>: the extractor gives the empty
  string and \<open>upload\<close> fails.
\<close>

theorem upload_empty_url_counterexample:
  "getByPath (Object [(''url'', String [])]) ''url'' = String [] \<and>
   upload (DEFAULT_SETTINGS\<lparr>imageUrlPath := ''url''\<rparr>) 0
     (\<lambda>request. Inr \<lparr>status = 200, json = Inr (Object [(''url'', String [])])\<rparr>)
     \<lparr>name = ''a.png'', type = [], arrayBuffer = Inr []\<rparr>
   = Inl (Error (''Could not extract URL from response using path '' @ dquote @ ''url'' @ dquote))"
  by (simp add: upload_def upload_response_def extract_url_def getByPath_def DEFAULT_SETTINGS_def)

section \<open>Properties: the multipart body\<close>
































section \<open>Properties: the placeholder\<close>

lemma getSubstitution_no_dollar:
  "CHR ''$'' \<notin> set replacement \<Longrightarrow> getSubstitution matched str position replacement = replacement"
  by (induction matched str position replacement rule: getSubstitution.induct) auto

lemma replace_absent: "indexOf doc pattern = None \<Longrightarrow> replace doc pattern replacement = doc"
  by (simp add: replace_def)

lemma indexOf_first:
  "indexOf s pat = Some i \<Longrightarrow>
   take (length pat) (drop i s) = pat \<and> (\<forall>j<i. take (length pat) (drop j s) \<noteq> pat)"
proof (induction s arbitrary: i)
  case Nil
  then show ?case by (auto split: if_splits)
next
  case (Cons c cs)
  show ?case
  proof (cases "take (length pat) (c # cs) = pat")
    case True
    with Cons.prems show ?thesis by simp
  next
    case False
    with Cons.prems obtain k where k: "indexOf cs pat = Some k" "i = Suc k" by auto
    from Cons.IH [OF k(1)] False k(2) show ?thesis
      by (auto simp: less_Suc_eq_0_disj)
  qed
qed

lemma replace_first_literal:
  assumes "indexOf doc pattern = Some i" and "CHR ''$'' \<notin> set replacement"
  shows "replace doc pattern replacement =
           take i doc @ replacement @ drop (i + length pattern) doc"
  using assms by (simp add: replace_def getSubstitution_no_dollar)

text \<open>
  C2 (on success the placeholder gives way to \<open>![](<url>)\<close>). \<open>replace\<close> reads
  its second argument as a replacement pattern, so the text that arrives is the reference
  only when it holds no dollar sign (\<open>replace_first_literal\<close>). With the URL
  \<open>https://h/a$$b.png\<close> the document gets \<open>![](https://h/a$b.png)\<close>.
\<close>

theorem uploadFile_dollar_in_url:
  "content (fst (uploadFile_settle
      \<lparr>name = ''a.png'', type = ''image/png'', arrayBuffer = Inr []\<rparr>
      (Inr ''https://h/a$$b.png'') (0, 0)
      \<lparr>content = ''![Uploading a.png...]()'', selection = (0, 0)\<rparr>))
   = ''![](https://h/a$b.png)''"
  by code_simp

section \<open>Properties: the orchestration\<close>

text \<open>
  What does hold of the loop: the next image is started whenever one is left, so the PDFs
  come after all images; and what a task does next does not depend on how the upload it
  waited for has ended, so a failed upload stops nothing.
\<close>

lemma continue_task_next_image:
  "images t = file # files \<Longrightarrow>
   continue_task st t ed = (t\<lparr>images := files, phase := Uploading file\<rparr>, uploadFile_start file ed)"
  by (simp add: continue_task_def)

lemma continue_task_schedule: "fst (continue_task st t ed) = fst (continue_task st t ed')"
  by (simp add: continue_task_def split: list.splits PdfHandling.splits)

lemma upload_outcome_does_not_stop_batch:
  assumes "i < length (tasks s)" and "phase (tasks s ! i) = Uploading file"
  shows "tasks (step s (UploadSettled i now requestUrl sel)) ! i =
           fst (continue_task (settings s) (tasks s ! i) (editor s))"
  using assms continue_task_schedule [of "settings s" "tasks s ! i" _ "editor s"]
  by (simp add: put_task_def split: prod.splits)

text \<open>
  C1 (all image uploads of a batch are started without waiting for one another). The
  loop of \<open>uploadFiles\<close> awaits each \<open>uploadFile\<close>: after a drop of \<open>a.png\<close> and
  \<open>b.png\<close> only \<open>a.png\<close> is in flight, \<open>b.png\<close> is still to come and has no
  placeholder in the document.
\<close>

theorem second_image_waits_for_first:
  "inflight (run (init DEFAULT_SETTINGS [])
      [FilesArrived True (Some [\<lparr>name = ''a.png'', type = ''image/png'', arrayBuffer = Inr [1]\<rparr>,
                                \<lparr>name = ''b.png'', type = ''image/png'', arrayBuffer = Inr [2]\<rparr>])])
     = [\<lparr>name = ''a.png'', type = ''image/png'', arrayBuffer = Inr [1]\<rparr>]
   \<and> map images (tasks (run (init DEFAULT_SETTINGS [])
      [FilesArrived True (Some [\<lparr>name = ''a.png'', type = ''image/png'', arrayBuffer = Inr [1]\<rparr>,
                                \<lparr>name = ''b.png'', type = ''image/png'', arrayBuffer = Inr [2]\<rparr>])]))
     = [[\<lparr>name = ''b.png'', type = ''image/png'', arrayBuffer = Inr [2]\<rparr>]]
   \<and> content (editor (run (init DEFAULT_SETTINGS [])
      [FilesArrived True (Some [\<lparr>name = ''a.png'', type = ''image/png'', arrayBuffer = Inr [1]\<rparr>,
                                \<lparr>name = ''b.png'', type = ''image/png'', arrayBuffer = Inr [2]\<rparr>])]))
     = ''![Uploading a.png...]()''"
  by code_simp

lemma placeholder_eq_iff: "placeholder f = placeholder g \<longleftrightarrow> name f = name g"
  by (simp add: placeholder_def)

text \<open>
  C7, as the code has it: the placeholder is made of the file name alone. Two uploads have
  the same placeholder exactly when their files have the same name, so in every state the
  plugin reaches the placeholders of the uploads in flight are pairwise distinct exactly
  when the names of their files are.
\<close>

theorem inflight_placeholders:
  "(distinct (map placeholder (inflight (run s events))) \<longleftrightarrow>
      distinct (map name (inflight (run s events))))
   \<and> (placeholder f = placeholder g \<longleftrightarrow> name f = name g)"
proof -
  have "map placeholder (inflight (run s events)) =
          map (\<lambda>n. ''![Uploading '' @ n @ ''...]()'') (map name (inflight (run s events)))"
    by (simp add: placeholder_def)
  moreover have "inj (\<lambda>n::string. ''![Uploading '' @ n @ ''...]()'')"
    by (rule injI) simp
  ultimately have "distinct (map placeholder (inflight (run s events))) \<longleftrightarrow>
      distinct (map name (inflight (run s events)))"
    by (simp add: distinct_map inj_on_def del: map_map)
  then show ?thesis by (simp add: placeholder_eq_iff)
qed

theorem inflight_placeholders_witness:
  "distinct (map placeholder (inflight (run (init DEFAULT_SETTINGS [])
      [FilesArrived True (Some [\<lparr>name = ''a.png'', type = ''image/png'', arrayBuffer = Inr [1]\<rparr>]),
       FilesArrived True (Some [\<lparr>name = ''b.png'', type = ''image/png'', arrayBuffer = Inr [2]\<rparr>])])))"
proof -
  have "distinct (map name (inflight (run (init DEFAULT_SETTINGS [])
      [FilesArrived True (Some [\<lparr>name = ''a.png'', type = ''image/png'', arrayBuffer = Inr [1]\<rparr>]),
       FilesArrived True (Some [\<lparr>name = ''b.png'', type = ''image/png'', arrayBuffer = Inr [2]\<rparr>])])))"
    by code_simp
  then show ?thesis
    using inflight_placeholders [of "init DEFAULT_SETTINGS []"
      "[FilesArrived True (Some [\<lparr>name = ''a.png'', type = ''image/png'', arrayBuffer = Inr [1]\<rparr>]),
        FilesArrived True (Some [\<lparr>name = ''b.png'', type = ''image/png'', arrayBuffer = Inr [2]\<rparr>])]"]
    by blast
qed

text \<open>
  C7 as stated (no two uploads in flight in a document share a placeholder) fails when
  a second paste of a file named \<open>image.png\<close> arrives while the first is in flight.
\<close>

theorem placeholder_collision_counterexample:
  "\<not> distinct (map placeholder (inflight (run (init DEFAULT_SETTINGS [])
      [FilesArrived True (Some [\<lparr>name = ''image.png'', type = ''image/png'', arrayBuffer = Inr [1]\<rparr>]),
       FilesArrived True (Some [\<lparr>name = ''image.png'', type = ''image/png'', arrayBuffer = Inr [2]\<rparr>])])))"
  by code_simp

text \<open>
  C9: leaving the dialog without a click settles the choice to false, and the PDF is
  saved locally, with no placeholder and no upload; a click on the upload button settles
  it to true, the \<open>close()\<close> after the click does not change that, and the PDF is uploaded.
\<close>

theorem pdf_dialog_choice:
  assumes "i < length (tasks s)" and "phase (tasks s ! i) = Asking pdf askPdfUpload"
  shows "settled (dismiss askPdfUpload) = Some False
       \<and> settled (clickUpload askPdfUpload) = Some True
       \<and> settled (close (resolve True askPdfUpload)) = settled (resolve True askPdfUpload)
       \<and> phase (tasks (step s (Dismiss i)) ! i) = Saving pdf
       \<and> editor (step s (Dismiss i)) = editor s
       \<and> phase (tasks (step s (ClickUpload i)) ! i) = Uploading pdf
       \<and> editor (step s (ClickUpload i)) = uploadFile_start pdf (editor s)"
  using assms
  by (simp add: dismiss_def clickUpload_def close_def onClose_def resolve_def
      askPdfUpload_def after_ask_def put_task_def)

theorem pdf_dialog_choice_witness:
  "phase (tasks (step (run (init (DEFAULT_SETTINGS\<lparr>pdfHandling := Ask\<rparr>) [])
      [FilesArrived True (Some [\<lparr>name = ''doc.pdf'', type = ''application/pdf'', arrayBuffer = Inr [1]\<rparr>])])
      (Dismiss 0)) ! 0)
   = Saving \<lparr>name = ''doc.pdf'', type = ''application/pdf'', arrayBuffer = Inr [1]\<rparr>"
proof -
  have a: "0 < length (tasks (run (init (DEFAULT_SETTINGS\<lparr>pdfHandling := Ask\<rparr>) [])
      [FilesArrived True (Some [\<lparr>name = ''doc.pdf'', type = ''application/pdf'', arrayBuffer = Inr [1]\<rparr>])]))"
    by code_simp
  have b: "phase (tasks (run (init (DEFAULT_SETTINGS\<lparr>pdfHandling := Ask\<rparr>) [])
      [FilesArrived True (Some [\<lparr>name = ''doc.pdf'', type = ''application/pdf'', arrayBuffer = Inr [1]\<rparr>])]) ! 0)
     = Asking \<lparr>name = ''doc.pdf'', type = ''application/pdf'', arrayBuffer = Inr [1]\<rparr> askPdfUpload"
    by code_simp
  from pdf_dialog_choice [OF a b] show ?thesis by blast
qed

section \<open>Properties: loading the settings\<close>

lemma map_of_fold_set_property:
  "k \<noteq> ''__proto__'' \<Longrightarrow>
   map_of (fold (\<lambda>kv obj. set_property (fst kv) (snd kv) obj) kvs target) k =
     (case map_of (rev kvs) k of Some v \<Rightarrow> Some v | None \<Rightarrow> map_of target k)"
proof (induction kvs arbitrary: target)
  case Nil
  then show ?case by simp
next
  case (Cons kv kvs)
  then show ?case
    by (auto simp: set_property_def update_conv' map_add_def split: option.splits)
qed

lemma settings_field_not_index:
  assumes "field \<in> set settings_fields"
  shows "field \<notin> set (map (digits 10) ns)"
proof
  assume "field \<in> set (map (digits 10) ns)"
  then obtain n where "field = digits 10 n" by auto
  then have "hd field \<in> set ''0123456789''" using hd_digits_10 by simp
  with assms show False by (auto simp: settings_fields_def)
qed

lemma map_of_rev_distinct: "distinct (map fst xs) \<Longrightarrow> map_of (rev xs) k = map_of xs k"
proof (induction xs)
  case Nil
  then show ?case by simp
next
  case (Cons x xs)
  then have ih: "map_of (rev xs) k = map_of xs k" and nin: "fst x \<notin> fst ` set xs" by auto
  show ?case
  proof (cases "k = fst x")
    case True
    with nin have "map_of xs k = None" by (simp add: map_of_eq_None_iff)
    with ih True show ?thesis by (cases x) (simp add: map_add_def)
  next
    case False
    with ih show ?thesis by (cases x) (auto simp: map_add_def split: option.splits)
  qed
qed

lemma map_of_index_keys:
  assumes "field \<in> set settings_fields"
  shows "map_of (zip (map (digits 10) ns) vs) field = None"
    and "map_of (rev (zip (map (digits 10) ns) vs)) field = None"
proof -
  define Z where "Z = zip (map (digits 10) ns) vs"
  have nin: "field \<notin> fst ` set Z"
    using settings_field_not_index [OF assms, of ns]
    unfolding Z_def by (auto dest!: set_zip_leftD)
  have "map_of Z field = None" unfolding map_of_eq_None_iff by (rule nin)
  moreover have "map_of (rev Z) field = None" unfolding map_of_eq_None_iff using nin by simp
  ultimately show "map_of (zip (map (digits 10) ns) vs) field = None"
    and "map_of (rev (zip (map (digits 10) ns) vs)) field = None"
    unfolding Z_def by blast+
qed

lemma map_of_rev_ownProperties:
  assumes "field \<in> set settings_fields"
  shows "map_of (rev (ownProperties d)) field = map_of (ownProperties d) field"
proof (cases d)
  case (Object kvs)
  then show ?thesis by (simp add: map_of_rev_distinct distinct_clearjunk)
next
  case (Array xs)
  then show ?thesis by (simp add: map_of_index_keys [OF assms])
next
  case (String str)
  then show ?thesis by (simp add: map_of_index_keys [OF assms])
qed simp_all

text \<open>
  C10: after \<open>loadSettings\<close> each of the five fields is there; it has the loaded value
  when the loaded data has the field, and the default otherwise.
\<close>

theorem loadSettings_fields:
  assumes "field \<in> set settings_fields"
  shows "map_of (loadSettings loadData) field =
           (case map_of (ownProperties loadData) field of
              Some v \<Rightarrow> Some v
            | None \<Rightarrow> map_of DEFAULT_SETTINGS_object field)
       \<and> map_of (loadSettings loadData) field \<noteq> None
       \<and> map_of DEFAULT_SETTINGS_object =
           [''apiEndpoint'' \<mapsto> String [], ''headers'' \<mapsto> Array [],
            ''fileFieldName'' \<mapsto> String ''file'', ''imageUrlPath'' \<mapsto> String [],
            ''pdfHandling'' \<mapsto> String ''default'']"
proof -
  have np: "field \<noteq> ''__proto__''" using assms by (auto simp: settings_fields_def)
  have d: "assign [] (Object DEFAULT_SETTINGS_object) = DEFAULT_SETTINGS_object"
    by (simp add: assign_def DEFAULT_SETTINGS_object_def set_property_def)
  have a: "map_of (loadSettings loadData) field =
           (case map_of (ownProperties loadData) field of
              Some v \<Rightarrow> Some v
            | None \<Rightarrow> map_of DEFAULT_SETTINGS_object field)"
    unfolding loadSettings_def d
    by (simp add: assign_def map_of_fold_set_property [OF np] map_of_rev_ownProperties [OF assms])
  have b: "map_of DEFAULT_SETTINGS_object field \<noteq> None"
    using assms by (auto simp: settings_fields_def DEFAULT_SETTINGS_object_def)
  have c: "map_of DEFAULT_SETTINGS_object =
           [''apiEndpoint'' \<mapsto> String [], ''headers'' \<mapsto> Array [],
            ''fileFieldName'' \<mapsto> String ''file'', ''imageUrlPath'' \<mapsto> String [],
            ''pdfHandling'' \<mapsto> String ''default'']"
    by (auto simp: DEFAULT_SETTINGS_object_def)
  from a b c show ?thesis by (auto split: option.splits)
qed

theorem loadSettings_fields_witness:
  "''fileFieldName'' \<in> set settings_fields \<and> ''apiEndpoint'' \<in> set settings_fields \<and>
   map_of (loadSettings (Object [(''apiEndpoint'', String ''https://h/up'')])) ''fileFieldName''
     = Some (String ''file'') \<and>
   map_of (loadSettings (Object [(''apiEndpoint'', String ''https://h/up'')])) ''apiEndpoint''
     = Some (String ''https://h/up'')"
  using loadSettings_fields [of "''fileFieldName''" "Object [(''apiEndpoint'', String ''https://h/up'')]"]
    loadSettings_fields [of "''apiEndpoint''" "Object [(''apiEndpoint'', String ''https://h/up'')]"]
  by (simp add: settings_fields_def DEFAULT_SETTINGS_object_def)

end
